theory Spec2Isabelle
  imports Complex_Main
begin

section \<open>The host's object model, as far as \<open>icons_generator.py\<close> reads and writes it\<close>

text \<open>
  The script is a sequence of calls into the host (the \<open>bpy\<close> module). The host's state is
  modelled as an explicit record that every function takes and returns. Python floats are
  modelled as \<open>real\<close> numbers (no rounding, no NaN, no infinities). Host calls are taken
  to succeed; the exceptions raised by the script's own expressions are values of \<open>error\<close>.
  Objects are referred to by their index in \<open>bpy.data.objects\<close>, collections by their
  index in \<open>bpy.data.collections\<close>; paths are POSIX paths.
\<close>

datatype error = ZeroDivisionError | ValueError | KeyError

type_synonym vec3 = "real \<times> real \<times> real"
type_synonym row4 = "real \<times> real \<times> real \<times> real"
type_synonym matrix4 = "row4 \<times> row4 \<times> row4 \<times> row4"

text \<open>The part of an object that the host's transform operators work on.\<close>

record geometry =
  scale :: vec3
  rotation_euler :: vec3
  location :: vec3
  bound_box :: "vec3 list"
  matrix_world :: matrix4

record object =
  oname :: string
  otype :: string
  geom :: geometry
  hide_render :: bool
  selected :: bool

text \<open>
  A collection of \<open>bpy.data.collections\<close>. \<open>in_scene\<close> says that the collection is linked
  below the scene's master collection and shown in the view layer, so that its objects
  belong to \<open>bpy.context.scene.objects\<close> and \<open>bpy.context.view_layer.objects\<close>. A
  collection made by \<open>bpy.data.collections.new\<close> is in no scene until it is linked.
\<close>

record collection =
  cname :: string
  cobjects :: "nat list"
  in_scene :: bool

datatype coll_ref = SceneCollection | DataCollection nat

record light_data =
  lname :: string
  ltype :: string
  energy :: real

text \<open>An f-string is a list of its literal parts and of the values formatted into it.\<close>

datatype piece = S string | F real | V vec3

text \<open>
  The history of the run, which the model keeps beside the host's state: which object was
  standardized, and which object was rendered at which resolution with which
  \<open>scene.render.filepath\<close>.
\<close>

datatype event = EvStandardize nat | EvRender nat int string

record blender =
  mode :: string
  filepath :: string
  objs :: "nat \<Rightarrow> object"
  n_objs :: nat
  collections :: "collection list"
  scene_objects :: "nat list"
  scene_camera :: "nat option"
  active :: "nat option"
  cameras_data :: "string list"
  lights_data :: "light_data list"
  resolution_x :: int
  resolution_y :: int
  file_format :: string
  color_mode :: string
  film_transparent :: bool
  render_filepath :: string
  fs :: "string set"
  trace :: "event list"
  stdout :: "piece list list"


definition print :: "piece list \<Rightarrow> blender \<Rightarrow> blender" where
  "print line st = st\<lparr>stdout := stdout st @ [line]\<rparr>"

definition update_obj :: "nat \<Rightarrow> (object \<Rightarrow> object) \<Rightarrow> blender \<Rightarrow> blender" where
  "update_obj i f st = st\<lparr>objs := (objs st)(i := f (objs st i))\<rparr>"

definition update_geom :: "nat \<Rightarrow> (geometry \<Rightarrow> geometry) \<Rightarrow> blender \<Rightarrow> blender" where
  "update_geom i f st = update_obj i (\<lambda>ob. ob\<lparr>geom := f (geom ob)\<rparr>) st"

text \<open>\<open>bpy.ops.object.mode_set(mode=m)\<close>\<close>

definition mode_set :: "string \<Rightarrow> blender \<Rightarrow> blender" where
  "mode_set m st = st\<lparr>mode := m\<rparr>"

section \<open>Numbers, vectors and strings of the Python side\<close>

text \<open>\<open>min(...)\<close> and \<open>max(...)\<close> over a generator: \<open>ValueError\<close> on an empty one.\<close>

fun py_min :: "real list \<Rightarrow> error + real" where
  "py_min [] = Inl ValueError"
| "py_min (x # xs) = Inr (fold (\<lambda>y m. if y < m then y else m) xs x)"

fun py_max :: "real list \<Rightarrow> error + real" where
  "py_max [] = Inl ValueError"
| "py_max (x # xs) = Inr (fold (\<lambda>y m. if y > m then y else m) xs x)"

text \<open>\<open>a / b\<close> on floats.\<close>

definition py_div :: "real \<Rightarrow> real \<Rightarrow> error + real" where
  "py_div a b = (if b = 0 then Inl ZeroDivisionError else Inr (a / b))"

text \<open>
  \<open>matrix_world @ Vector(corner)\<close>: a 4x4 matrix times a 3D vector extends the vector by
  \<open>w = 1\<close> and returns the first three components of the product.
\<close>

definition dot4 :: "row4 \<Rightarrow> vec3 \<Rightarrow> real" where
  "dot4 r v = (case r of (a, b, c, d) \<Rightarrow> case v of (x, y, z) \<Rightarrow> a * x + b * y + c * z + d)"

definition mat_vec :: "matrix4 \<Rightarrow> vec3 \<Rightarrow> vec3" where
  "mat_vec m v = (case m of (r1, r2, r3, r4) \<Rightarrow> (dot4 r1 v, dot4 r2 v, dot4 r3 v))"

definition vx :: "vec3 \<Rightarrow> real" where "vx v = fst v"
definition vy :: "vec3 \<Rightarrow> real" where "vy v = fst (snd v)"
definition vz :: "vec3 \<Rightarrow> real" where "vz v = snd (snd v)"

section \<open>\<open>scale_object_to_fit_camera\<close>\<close>

text \<open>An exception raised by an expression ends the function that evaluates it.\<close>

definition err_bind :: "error + 'a \<Rightarrow> ('a \<Rightarrow> error + 'b) \<Rightarrow> error + 'b" where
  "err_bind m f = (case m of Inl e \<Rightarrow> Inl e | Inr x \<Rightarrow> f x)"

text \<open>
  The three branches on \<open>front_plane\<close> (source lines 41 to 63). A value of \<open>front_plane\<close>
  that matches no branch leaves the object as it is.
\<close>

definition scale_branches ::
  "string \<Rightarrow> real \<Rightarrow> real \<Rightarrow> real \<Rightarrow> real \<Rightarrow> nat \<Rightarrow> blender \<Rightarrow> error + blender" where
  "scale_branches front_plane width depth height target_size obj st =
     (if front_plane = ''XY'' then
        (let largest_dimension = max width depth in
         err_bind (py_div target_size largest_dimension) (\<lambda>scale_factor.
           Inr (update_geom obj (\<lambda>g. g\<lparr>scale := (scale_factor, scale_factor, scale_factor)\<rparr>)
                 (print [S ''Scaling the object to fit the front plane XY. Largest dimension: '',
                         F largest_dimension, S ''. Scale factor: '', F scale_factor] st))))
      else if front_plane = ''YZ'' then
        (let largest_dimension = max height depth in
         err_bind (py_div target_size largest_dimension) (\<lambda>scale_factor.
           Inr (update_geom obj (\<lambda>g. g\<lparr>scale := (scale_factor, scale_factor, scale_factor)\<rparr>)
                 (print [S ''Scaling the object to fit the front plane YZ. Largest dimension: '',
                         F largest_dimension, S ''. Scale factor: '', F scale_factor] st))))
      else if front_plane = ''ZX'' then
        (let largest_dimension = max width height in
         err_bind (py_div target_size largest_dimension) (\<lambda>scale_factor.
           Inr (update_geom obj (\<lambda>g. g\<lparr>scale := (scale_factor, scale_factor, scale_factor)\<rparr>)
                 (print [S ''Scaling the object to fit the front plane ZX. Largest dimension: '',
                         F largest_dimension, S ''. Scale factor: '', F scale_factor] st))))
      else Inr st)"

text \<open>The world-space corners of the bounding box (source line 18).\<close>

definition world_corners :: "object \<Rightarrow> vec3 list" where
  "world_corners ob = map (mat_vec (matrix_world (geom ob))) (bound_box (geom ob))"

definition scale_object_to_fit_camera :: "nat \<Rightarrow> real \<Rightarrow> blender \<Rightarrow> error + blender" where
  "scale_object_to_fit_camera obj target_size st0 =
     (let st = mode_set ''OBJECT'' st0;
          bounding_box = world_corners (objs st obj)
      in err_bind (py_min (map vx bounding_box)) (\<lambda>min_x.
         err_bind (py_max (map vx bounding_box)) (\<lambda>max_x.
         err_bind (py_min (map vy bounding_box)) (\<lambda>min_y.
         err_bind (py_max (map vy bounding_box)) (\<lambda>max_y.
         err_bind (py_min (map vz bounding_box)) (\<lambda>min_z.
         err_bind (py_max (map vz bounding_box)) (\<lambda>max_z.
         (let width = max_x - min_x;
              depth = max_y - min_y;
              height = max_z - min_z;
              front_plane = ''XY'';
              st1 = print [S ''Object bounding box dimensions - Width: '', F width,
                           S '', Depth: '', F depth, S '', Height: '', F height] st
          in scale_branches front_plane width depth height target_size obj st1))))))))"

text \<open>The function with the XY branch only, for comparison.\<close>

definition scale_object_xy_only :: "nat \<Rightarrow> real \<Rightarrow> blender \<Rightarrow> error + blender" where
  "scale_object_xy_only obj target_size st0 =
     (let st = mode_set ''OBJECT'' st0;
          bounding_box = world_corners (objs st obj)
      in err_bind (py_min (map vx bounding_box)) (\<lambda>min_x.
         err_bind (py_max (map vx bounding_box)) (\<lambda>max_x.
         err_bind (py_min (map vy bounding_box)) (\<lambda>min_y.
         err_bind (py_max (map vy bounding_box)) (\<lambda>max_y.
         err_bind (py_min (map vz bounding_box)) (\<lambda>min_z.
         err_bind (py_max (map vz bounding_box)) (\<lambda>max_z.
         (let width = max_x - min_x;
              depth = max_y - min_y;
              height = max_z - min_z;
              st1 = print [S ''Object bounding box dimensions - Width: '', F width,
                           S '', Depth: '', F depth, S '', Height: '', F height] st;
              largest_dimension = max width depth
          in err_bind (py_div target_size largest_dimension) (\<lambda>scale_factor.
               Inr (update_geom obj (\<lambda>g. g\<lparr>scale := (scale_factor, scale_factor, scale_factor)\<rparr>)
                     (print [S ''Scaling the object to fit the front plane XY. Largest dimension: '',
                             F largest_dimension, S ''. Scale factor: '', F scale_factor] st1)))))))))))"

text \<open>
  The axis-aligned extent of the world-space bounding box, stated with the minimum and the
  maximum of the set of coordinates.
\<close>

definition bbox_width :: "object \<Rightarrow> real" where
  "bbox_width ob = Max (vx ` set (world_corners ob)) - Min (vx ` set (world_corners ob))"

definition bbox_depth :: "object \<Rightarrow> real" where
  "bbox_depth ob = Max (vy ` set (world_corners ob)) - Min (vy ` set (world_corners ob))"

section \<open>Strings and paths\<close>

text \<open>\<open>str(n)\<close> of an integer, as an f-string formats it.\<close>

definition digit :: "nat \<Rightarrow> char" where
  "digit n = ''0123456789'' ! n"

fun str_nat :: "nat \<Rightarrow> string" where
  "str_nat n = (if n < 10 then [digit n] else str_nat (n div 10) @ [digit (n mod 10)])"

definition str_int :: "int \<Rightarrow> string" where
  "str_int i = (if i < 0 then CHR ''-'' # str_nat (nat (- i)) else str_nat (nat i))"

text \<open>
  \<open>os.path.join(a, b)\<close> and \<open>os.path.dirname(p)\<close> of \<open>posixpath\<close>: an absolute second
  component replaces the first; \<open>dirname\<close> keeps everything up to the last slash and strips
  trailing slashes unless only slashes are left.
\<close>

definition join :: "string \<Rightarrow> string \<Rightarrow> string" where
  "join a b =
     (if b \<noteq> [] \<and> hd b = CHR ''/'' then b
      else if a = [] \<or> last a = CHR ''/'' then a @ b
      else a @ ''/'' @ b)"



section \<open>Host calls on collections, objects and data blocks\<close>

text \<open>
  The host keeps the names of its data blocks unique: a taken name gets the first free
  suffix \<open>.001\<close>, \<open>.002\<close>, ...
\<close>

definition pad3 :: "nat \<Rightarrow> string" where
  "pad3 k = replicate (3 - length (str_nat k)) CHR ''0'' @ str_nat k"

definition unique_name :: "string \<Rightarrow> string list \<Rightarrow> string" where
  "unique_name nm used =
     (if nm \<notin> set used then nm
      else case find (\<lambda>c. c \<notin> set used) (map (\<lambda>k. nm @ ''.'' @ pad3 k) [1..<length used + 2]) of
             Some c \<Rightarrow> c
           | None \<Rightarrow> nm)"

text \<open>\<open>name in bpy.data.collections\<close> and \<open>bpy.data.collections[name]\<close>.\<close>

fun find_collection :: "string \<Rightarrow> collection list \<Rightarrow> nat option" where
  "find_collection nm [] = None"
| "find_collection nm (c # cs) =
     (if cname c = nm then Some 0 else map_option Suc (find_collection nm cs))"

text \<open>\<open>bpy.data.collections.new(name)\<close>: a new, empty collection linked to no scene.\<close>

definition collections_new :: "string \<Rightarrow> blender \<Rightarrow> nat \<times> blender" where
  "collections_new nm st =
     (length (collections st),
      st\<lparr>collections := collections st @
            [\<lparr>cname = unique_name nm (map cname (collections st)), cobjects = [],
              in_scene = False\<rparr>]\<rparr>)"

text \<open>\<open>bpy.context.scene.collection.children.link(c)\<close>\<close>

definition scene_children_link :: "nat \<Rightarrow> blender \<Rightarrow> blender" where
  "scene_children_link c st =
     st\<lparr>collections := (collections st)[c := (collections st ! c)\<lparr>in_scene := True\<rparr>]\<rparr>"

definition identity4 :: matrix4 where
  "identity4 = ((1, 0, 0, 0), (0, 1, 0, 0), (0, 0, 1, 0), (0, 0, 0, 1))"

definition default_geometry :: geometry where
  "default_geometry =
     \<lparr>scale = (1, 1, 1), rotation_euler = (0, 0, 0), location = (0, 0, 0),
      bound_box = [(-1, -1, -1), (-1, -1, 1), (-1, 1, 1), (-1, 1, -1),
                   (1, -1, -1), (1, -1, 1), (1, 1, 1), (1, 1, -1)],
      matrix_world = identity4\<rparr>"

text \<open>
  \<open>bpy.data.objects.new(name, object_data)\<close>: the type of the new object is the type of its
  data block; the object is in no collection.
\<close>

definition objects_new :: "string \<Rightarrow> string \<Rightarrow> blender \<Rightarrow> nat \<times> blender" where
  "objects_new nm ty st =
     (n_objs st,
      st\<lparr>objs := (objs st)(n_objs st :=
            \<lparr>oname = unique_name nm (map (\<lambda>j. oname (objs st j)) [0..<n_objs st]),
             otype = ty, geom = default_geometry, hide_render = False, selected = False\<rparr>),
         n_objs := Suc (n_objs st)\<rparr>)"

text \<open>\<open>bpy.data.cameras.new(name)\<close> and \<open>bpy.data.lights.new(name, type)\<close>\<close>

definition cameras_new :: "string \<Rightarrow> blender \<Rightarrow> nat \<times> blender" where
  "cameras_new nm st =
     (length (cameras_data st),
      st\<lparr>cameras_data := cameras_data st @ [unique_name nm (cameras_data st)]\<rparr>)"

definition lights_new :: "string \<Rightarrow> string \<Rightarrow> blender \<Rightarrow> nat \<times> blender" where
  "lights_new nm ty st =
     (length (lights_data st),
      st\<lparr>lights_data := lights_data st @
            [\<lparr>lname = unique_name nm (map lname (lights_data st)), ltype = ty, energy = 10\<rparr>]\<rparr>)"

definition set_energy :: "nat \<Rightarrow> real \<Rightarrow> blender \<Rightarrow> blender" where
  "set_energy l e st = st\<lparr>lights_data := (lights_data st)[l := (lights_data st ! l)\<lparr>energy := e\<rparr>]\<rparr>"

text \<open>\<open>collection.objects.link(obj)\<close> and \<open>collection.objects.unlink(obj)\<close>\<close>

definition objects_link :: "coll_ref \<Rightarrow> nat \<Rightarrow> blender \<Rightarrow> blender" where
  "objects_link c obj st =
     (case c of
        SceneCollection \<Rightarrow> st\<lparr>scene_objects := scene_objects st @ [obj]\<rparr>
      | DataCollection i \<Rightarrow>
          st\<lparr>collections := (collections st)
                [i := (collections st ! i)\<lparr>cobjects := cobjects (collections st ! i) @ [obj]\<rparr>]\<rparr>)"

definition objects_unlink :: "coll_ref \<Rightarrow> nat \<Rightarrow> blender \<Rightarrow> blender" where
  "objects_unlink c obj st =
     (case c of
        SceneCollection \<Rightarrow> st\<lparr>scene_objects := removeAll obj (scene_objects st)\<rparr>
      | DataCollection i \<Rightarrow>
          st\<lparr>collections := (collections st)
                [i := (collections st ! i)\<lparr>cobjects := removeAll obj (cobjects (collections st ! i))\<rparr>]\<rparr>)"

text \<open>\<open>obj.users_collection\<close>: the collections the object is linked to.\<close>

definition users_collection :: "blender \<Rightarrow> nat \<Rightarrow> coll_ref list" where
  "users_collection st obj =
     (if obj \<in> set (scene_objects st) then [SceneCollection] else []) @
     map DataCollection
       (filter (\<lambda>i. obj \<in> set (cobjects (collections st ! i))) [0..<length (collections st)])"

text \<open>
  \<open>bpy.context.scene.objects\<close> and \<open>bpy.context.view_layer.objects\<close>: the objects of the
  scene's master collection and of the collections linked below it.
\<close>

definition scene_objs :: "blender \<Rightarrow> nat list" where
  "scene_objs st = scene_objects st @ concat (map cobjects (filter in_scene (collections st)))"

definition view_layer_objects :: "blender \<Rightarrow> nat list" where
  "view_layer_objects st = scene_objs st"

text \<open>The selected objects are the ones a transform operator works on.\<close>

definition apply_to_selected :: "(geometry \<Rightarrow> geometry) \<Rightarrow> blender \<Rightarrow> blender" where
  "apply_to_selected f st =
     st\<lparr>objs := (\<lambda>i. if selected (objs st i) then (objs st i)\<lparr>geom := f (geom (objs st i))\<rparr>
                      else objs st i)\<rparr>"

definition select_set :: "nat \<Rightarrow> bool \<Rightarrow> blender \<Rightarrow> blender" where
  "select_set obj b st = update_obj obj (\<lambda>ob. ob\<lparr>selected := b\<rparr>) st"

text \<open>\<open>bpy.context.view_layer.update()\<close> recomputes derived data; nothing of the modelled state changes.\<close>

definition view_layer_update :: "blender \<Rightarrow> blender" where
  "view_layer_update st = st"

definition radians :: "real \<Rightarrow> real" where
  "radians d = d * pi / 180"

section \<open>The functions of \<open>icons_generator.py\<close>\<close>



definition setup_render_settings :: "int \<Rightarrow> blender \<Rightarrow> blender" where
  "setup_render_settings resolution st =
     print [S ''Render settings updated for resolution: '', S (str_int resolution), S ''x'',
            S (str_int resolution)]
       (st\<lparr>resolution_x := resolution, resolution_y := resolution, file_format := ''PNG'',
           color_mode := ''RGBA'', film_transparent := True\<rparr>)"

text \<open>The body of the loop over \<open>bpy.context.scene.objects\<close> in \<open>render_object\<close>.\<close>

definition hide_step :: "nat \<Rightarrow> nat \<Rightarrow> blender \<Rightarrow> blender" where
  "hide_step obj other_obj st =
     (if other_obj \<noteq> obj \<and> otype (objs st other_obj) \<noteq> ''LIGHT''
      then update_obj other_obj (\<lambda>ob. ob\<lparr>hide_render := True\<rparr>) st
      else update_obj other_obj (\<lambda>ob. ob\<lparr>hide_render := False\<rparr>) st)"

text \<open>
  \<open>bpy.ops.render.render(write_still=True)\<close>: the host writes the image to
  \<open>scene.render.filepath\<close>; the history records for which object and resolution.
\<close>

definition render_write_still :: "nat \<Rightarrow> int \<Rightarrow> blender \<Rightarrow> blender" where
  "render_write_still obj resolution st =
     st\<lparr>fs := insert (render_filepath st) (fs st),
        trace := trace st @ [EvRender obj resolution (render_filepath st)]\<rparr>"

definition render_object :: "nat \<Rightarrow> int \<Rightarrow> string \<Rightarrow> blender \<Rightarrow> blender" where
  "render_object obj resolution output_dir st =
     (let st1 = fold (hide_step obj) (scene_objs st) st;
          output_path = join output_dir (str_int resolution @ ''.png'');
          st2 = st1\<lparr>render_filepath := output_path\<rparr>;
          st3 = print [S ''Rendering '', S (oname (objs st2 obj)), S '' at '', S (str_int resolution),
                       S ''x'', S (str_int resolution), S ''...''] st2;
          st4 = render_write_still obj resolution st3
      in print [S ''Saved render to: '', S output_path] st4)"



definition create_setup_collection :: "blender \<Rightarrow> coll_ref \<times> blender" where
  "create_setup_collection st =
     (case find_collection ''Setup'' (collections st) of
        None \<Rightarrow>
          (let (setup_collection, st1) = collections_new ''Setup'' st;
               st2 = scene_children_link setup_collection st1
           in (DataCollection setup_collection, print [S ''Created 'Setup' collection.''] st2))
      | Some setup_collection \<Rightarrow>
          (DataCollection setup_collection, print [S '''Setup' collection already exists.''] st))"

definition add_camera_to_collection :: "coll_ref \<Rightarrow> blender \<Rightarrow> nat \<times> blender" where
  "add_camera_to_collection collection st0 =
     (let st = print [S ''Adding camera...''] st0;
          (camera_data, st) = cameras_new ''RenderCamera'' st;
          (camera_object, st) = objects_new ''RenderCamera'' ''CAMERA'' st;
          st = objects_link collection camera_object st;
          st = update_geom camera_object (\<lambda>g. g\<lparr>location := (0, -4, 0)\<rparr>) st;
          st = update_geom camera_object (\<lambda>g. g\<lparr>rotation_euler := (radians 90, 0, 0)\<rparr>) st
      in (camera_object, st))"

definition lights_exist :: "blender \<Rightarrow> bool" where
  "lights_exist st = list_ex (\<lambda>obj. otype (objs st obj) = ''LIGHT'') (view_layer_objects st)"

text \<open>One of the three blocks of \<open>add_3_point_lighting_to_collection\<close> (source lines 181 to 185).\<close>

definition add_point_light ::
  "string \<Rightarrow> real \<Rightarrow> vec3 \<Rightarrow> coll_ref \<Rightarrow> blender \<Rightarrow> nat \<times> blender" where
  "add_point_light nm e loc collection st0 =
     (let (light_data, st) = lights_new nm ''POINT'' st0;
          st = set_energy light_data e st;
          (light_object, st) = objects_new nm ''LIGHT'' st;
          st = update_geom light_object (\<lambda>g. g\<lparr>location := loc\<rparr>) st;
          st = objects_link collection light_object st
      in (light_object, st))"

definition add_3_point_lighting_to_collection :: "coll_ref \<Rightarrow> blender \<Rightarrow> nat list \<times> blender" where
  "add_3_point_lighting_to_collection collection st0 =
     (if lights_exist st0
      then ([], print [S ''Lights already exist in the scene. Skipping light setup.''] st0)
      else
        (let st = print [S ''Adding 3-point lighting...''] st0;
             (key_light_object, st) = add_point_light ''KeyLight'' 3000 (5, -5, 5) collection st;
             (fill_light_object, st) = add_point_light ''FillLight'' 1500 (-5, -5, 5) collection st;
             (back_light_object, st) = add_point_light ''BackLight'' 900 (0, 5, 5) collection st
         in ([key_light_object, fill_light_object, back_light_object], st)))"

definition ensure_unique_in_collection :: "coll_ref \<Rightarrow> nat list \<Rightarrow> blender \<Rightarrow> blender" where
  "ensure_unique_in_collection collection objects st =
     print [S ''Ensured objects are unique to the 'Setup' collection.'']
       (fold (\<lambda>obj st.
                fold (\<lambda>coll st. if coll \<noteq> collection then objects_unlink coll obj st else st)
                  (users_collection st obj) st)
          objects st)"

text \<open>\<open>main\<close>, source lines 220 to 236: the camera and lighting rig.\<close>

definition main_setup :: "blender \<Rightarrow> (coll_ref \<times> nat \<times> nat list) \<times> blender" where
  "main_setup st0 =
     (let (setup_collection, st) = create_setup_collection st0;
          (camera_object, st) = add_camera_to_collection setup_collection st;
          (lights, st) = add_3_point_lighting_to_collection setup_collection st;
          st = st\<lparr>scene_camera := Some camera_object\<rparr>;
          st = view_layer_update st;
          st = ensure_unique_in_collection setup_collection ([camera_object] @ lights) st;
          st = print [S ''Setup complete! Camera and 3-point lighting added to the 'Setup' collection.''] st
      in ((setup_collection, camera_object, lights), st))"






section \<open>Example scenes\<close>

text \<open>
  A mesh whose local bounding box is the cube from -1 to 1 and whose world matrix stretches
  x by 2 and moves it by 1: its world-space bounding box is 4 wide, 2 deep and 2 high.
\<close>

definition cube :: object where
  "cube =
     \<lparr>oname = ''Cube'', otype = ''MESH'',
      geom = default_geometry\<lparr>matrix_world := ((2, 0, 0, 1), (0, 1, 0, 0), (0, 0, 1, 0), (0, 0, 0, 1))\<rparr>,
      hide_render = False, selected = False\<rparr>"

text \<open>A mesh whose bounding box is a vertical segment: width and depth are 0.\<close>

definition needle :: object where
  "needle =
     \<lparr>oname = ''Needle'', otype = ''MESH'',
      geom = default_geometry\<lparr>bound_box := [(0, 0, 0), (0, 0, 1), (0, 0, 1), (0, 0, 0),
                                              (0, 0, 0), (0, 0, 1), (0, 0, 1), (0, 0, 0)]\<rparr>,
      hide_render = False, selected = False\<rparr>"

definition axis :: object where
  "axis = \<lparr>oname = ''Axis'', otype = ''EMPTY'', geom = default_geometry,
            hide_render = False, selected = False\<rparr>"

definition unused :: object where
  "unused = \<lparr>oname = [], otype = [], geom = default_geometry,
              hide_render = False, selected = False\<rparr>"

definition blank :: blender where
  "blank =
     \<lparr>mode = ''EDIT'', filepath = ''/home/u/scene.blend'', objs = (\<lambda>i. unused), n_objs = 0,
      collections = [], scene_objects = [], scene_camera = None, active = None,
      cameras_data = [], lights_data = [], resolution_x = 1920, resolution_y = 1080,
      file_format = ''JPEG'', color_mode = ''RGB'', film_transparent = False,
      render_filepath = ''/tmp/'', fs = {''/home/u'', ''/home/u/scene.blend''},
      trace = [], stdout = []\<rparr>"

text \<open>A scene whose "Target" collection holds the cube and an empty.\<close>

definition demo_scene :: blender where
  "demo_scene =
     blank\<lparr>objs := (\<lambda>i. if i = 0 then cube else if i = 1 then axis else unused), n_objs := 2,
           collections := [\<lparr>cname = ''Target'', cobjects = [0, 1], in_scene = True\<rparr>]\<rparr>"


text \<open>A scene whose "Target" collection holds the needle only.\<close>

definition needle_scene :: blender where
  "needle_scene =
     blank\<lparr>objs := (\<lambda>i. if i = 0 then needle else unused), n_objs := 1,
           collections := [\<lparr>cname = ''Target'', cobjects = [0], in_scene = True\<rparr>]\<rparr>"

text \<open>A scene with the rig in place: a camera and a light in a "Setup" collection.\<close>

definition studio_scene :: blender where
  "studio_scene =
     blank\<lparr>objs := (\<lambda>i. if i = 0 then cube else if i = 1 then axis
                        else if i = 2 then unused\<lparr>oname := ''RenderCamera'', otype := ''CAMERA''\<rparr>
                        else if i = 3 then unused\<lparr>oname := ''KeyLight'', otype := ''LIGHT'',
                                                   hide_render := True\<rparr>
                        else unused),
           n_objs := 4,
           collections := [\<lparr>cname = ''Target'', cobjects = [0, 1], in_scene = True\<rparr>,
                           \<lparr>cname = ''Setup'', cobjects = [2, 3], in_scene = True\<rparr>],
           scene_camera := Some 2\<rparr>"




section \<open>Notions used to state the properties\<close>





text \<open>The object is linked to the collection.\<close>

definition linked :: "blender \<Rightarrow> coll_ref \<Rightarrow> nat \<Rightarrow> bool" where
  "linked st c obj =
     (case c of
        SceneCollection \<Rightarrow> obj \<in> set (scene_objects st)
      | DataCollection i \<Rightarrow> i < length (collections st) \<and> obj \<in> set (cobjects (collections st ! i)))"


text \<open>The part of the state that standardizing and rendering leave alone.\<close>

definition static :: "blender \<Rightarrow> string \<times> collection list \<times> (nat \<Rightarrow> string \<times> string)" where
  "static st = (filepath st, collections st, (\<lambda>o'. (oname (objs st o'), otype (objs st o'))))"





section \<open>Properties of \<open>scale_object_to_fit_camera\<close>\<close>

lemma fold_min_Min:
  "fold (\<lambda>y m. if y < m then y else m) xs (x::real) = Min (insert x (set xs))"
proof -
  have "(\<lambda>y m. if y < m then y else m) = (min :: real \<Rightarrow> real \<Rightarrow> real)"
    by (auto simp: fun_eq_iff min_def)
  then show ?thesis using Min.set_eq_fold [of x xs] by simp
qed

lemma fold_max_Max:
  "fold (\<lambda>y m. if y > m then y else m) xs (x::real) = Max (insert x (set xs))"
proof -
  have "(\<lambda>y m. if y > m then y else m) = (max :: real \<Rightarrow> real \<Rightarrow> real)"
    by (auto simp: fun_eq_iff max_def)
  then show ?thesis using Max.set_eq_fold [of x xs] by simp
qed

lemma py_min_Min: "xs \<noteq> [] \<Longrightarrow> py_min (map f xs) = Inr (Min (f ` set xs))"
  by (cases xs) (simp_all add: fold_min_Min)

lemma py_max_Max: "xs \<noteq> [] \<Longrightarrow> py_max (map f xs) = Inr (Max (f ` set xs))"
  by (cases xs) (simp_all add: fold_max_Max)

lemma objs_mode_set [simp]: "objs (mode_set m st) = objs st"
  by (simp add: mode_set_def)

lemma objs_print [simp]: "objs (print l st) = objs st"
  by (simp add: print_def)

lemma geom_update_geom [simp]: "geom (objs (update_geom i f st) i) = f (geom (objs st i))"
  by (simp add: update_geom_def update_obj_def)



lemma needle_width: "bbox_width (objs needle_scene 0) = 0"
  by (simp add: bbox_width_def world_corners_def needle_scene_def blank_def needle_def
      default_geometry_def mat_vec_def dot4_def vx_def identity4_def)

lemma needle_depth: "bbox_depth (objs needle_scene 0) = 0"
  by (simp add: bbox_depth_def world_corners_def needle_scene_def blank_def needle_def
      default_geometry_def mat_vec_def dot4_def vy_def identity4_def)



text \<open>
  C5. The function equals, on every input, the function that has the XY branch only: the YZ
  and ZX branches are never taken.
\<close>

theorem yz_zx_branches_dead: "scale_object_to_fit_camera = scale_object_xy_only"
  by (intro ext) (simp add: scale_object_to_fit_camera_def scale_object_xy_only_def
      scale_branches_def Let_def)

text \<open>
  C9. For an object with a bounding box whose world-space width and depth are both 0, the
  call raises ZeroDivisionError: it neither returns nor skips the scaling.
\<close>

theorem scale_div_zero:
  assumes "bound_box (geom (objs st obj)) \<noteq> []"
    and "bbox_width (objs st obj) = 0" and "bbox_depth (objs st obj) = 0"
  shows "scale_object_to_fit_camera obj target_size st = Inl ZeroDivisionError"
proof -
  from assms(1) have ne: "world_corners (objs st obj) \<noteq> []"
    by (simp add: world_corners_def)
  show ?thesis
    using assms(2,3)
    by (simp add: scale_object_to_fit_camera_def Let_def err_bind_def py_min_Min [OF ne]
        py_max_Max [OF ne] scale_branches_def py_div_def bbox_width_def bbox_depth_def)
qed

theorem scale_div_zero_witness:
  "scale_object_to_fit_camera 0 2 needle_scene = Inl ZeroDivisionError"
proof -
  have ne: "bound_box (geom (objs needle_scene 0)) \<noteq> []"
    by (simp add: needle_scene_def blank_def needle_def default_geometry_def)
  from scale_div_zero [OF ne needle_width needle_depth] show ?thesis .
qed

section \<open>Render settings and visibility\<close>



lemma otype_hide_step [simp]: "otype (objs (hide_step obj x st) o') = otype (objs st o')"
  by (simp add: hide_step_def update_obj_def)

lemma otype_fold_hide [simp]: "otype (objs (fold (hide_step obj) xs st) o') = otype (objs st o')"
  by (induction xs arbitrary: st) simp_all

lemma hide_render_hide_step:
  "hide_render (objs (hide_step obj x st) o') =
     (if o' = x then (x \<noteq> obj \<and> otype (objs st x) \<noteq> ''LIGHT'') else hide_render (objs st o'))"
  by (simp add: hide_step_def update_obj_def)

lemma hide_render_fold_hide:
  "hide_render (objs (fold (hide_step obj) xs st) o') =
     (if o' \<in> set xs then (o' \<noteq> obj \<and> otype (objs st o') \<noteq> ''LIGHT'')
      else hide_render (objs st o'))"
proof (induction xs arbitrary: st rule: rev_induct)
  case Nil
  show ?case by simp
next
  case (snoc x xs)
  show ?case by (simp add: hide_render_hide_step snoc.IH)
qed

lemma objs_render_object:
  "objs (render_object obj resolution output_dir st) = objs (fold (hide_step obj) (scene_objs st) st)"
  by (simp add: render_object_def Let_def render_write_still_def print_def)

text \<open>
  C10. After \<open>render_object(obj, resolution, output_dir)\<close>, an object of the scene is hidden
  from the render exactly if it is not \<open>obj\<close> and its type is not LIGHT. Nothing exempts
  the camera: in the example scene the active camera (object 2) and the empty (object 1) end
  up hidden, the rendered mesh (object 0) and the light (object 3) visible.
\<close>

theorem render_object_visibility:
  assumes "other \<in> set (scene_objs st)"
  shows "hide_render (objs (render_object obj resolution output_dir st) other) =
           (other \<noteq> obj \<and> otype (objs st other) \<noteq> ''LIGHT'')"
  using assms by (simp add: objs_render_object hide_render_fold_hide)

lemma studio_scene_objs: "scene_objs studio_scene = [0, 1, 2, 3]"
  by (simp add: scene_objs_def studio_scene_def blank_def)

theorem render_object_visibility_witness:
  "scene_camera studio_scene = Some 2 \<and>
   hide_render (objs (render_object 0 1024 ''/home/u/Icons/Cube'' studio_scene) 2) \<and>
   hide_render (objs (render_object 0 1024 ''/home/u/Icons/Cube'' studio_scene) 1) \<and>
   \<not> hide_render (objs (render_object 0 1024 ''/home/u/Icons/Cube'' studio_scene) 0) \<and>
   \<not> hide_render (objs (render_object 0 1024 ''/home/u/Icons/Cube'' studio_scene) 3)"
  using render_object_visibility [of 2 studio_scene 0 1024 "''/home/u/Icons/Cube''"]
    render_object_visibility [of 1 studio_scene 0 1024 "''/home/u/Icons/Cube''"]
    render_object_visibility [of 0 studio_scene 0 1024 "''/home/u/Icons/Cube''"]
    render_object_visibility [of 3 studio_scene 0 1024 "''/home/u/Icons/Cube''"]
  by (simp add: studio_scene_objs) (simp add: studio_scene_def blank_def cube_def axis_def unused_def)



section \<open>The missing "Target" collection\<close>

lemma find_collection_None: "find_collection nm cs = None \<longleftrightarrow> nm \<notin> cname ` set cs"
  by (induction cs) auto



section \<open>The setup of the collection and the lights\<close>

lemma find_collection_Some:
  "find_collection nm cs = Some i \<Longrightarrow> i < length cs \<and> cname (cs ! i) = nm"
  by (induction cs arbitrary: i) (auto split: if_splits)



lemma create_setup_existing:
  "find_collection ''Setup'' (collections st) = Some i \<Longrightarrow>
   create_setup_collection st =
     (DataCollection i, print [S '''Setup' collection already exists.''] st)"
  by (simp add: create_setup_collection_def)

lemma create_setup_new:
  "find_collection ''Setup'' (collections st) = None \<Longrightarrow>
   create_setup_collection st =
     (DataCollection (length (collections st)),
      print [S ''Created 'Setup' collection.'']
        (st\<lparr>collections := collections st @
              [\<lparr>cname = ''Setup'', cobjects = [], in_scene = True\<rparr>]\<rparr>))"
proof -
  assume a: "find_collection ''Setup'' (collections st) = None"
  then have b: "''Setup'' \<notin> cname ` set (collections st)"
    by (simp add: find_collection_None)
  show ?thesis
    by (simp add: create_setup_collection_def a)
       (simp add: collections_new_def scene_children_link_def unique_name_def b Let_def)
qed

lemma scene_objs_print [simp]: "scene_objs (print l st) = scene_objs st"
  by (simp add: scene_objs_def print_def)

lemma lights_exist_print [simp]: "lights_exist (print l st) = lights_exist st"
  by (simp add: lights_exist_def view_layer_objects_def)

lemma collections_print [simp]: "collections (print l st) = collections st"
  by (simp add: print_def)

lemma n_objs_print [simp]: "n_objs (print l st) = n_objs st"
  by (simp add: print_def)

lemma lights_data_print [simp]: "lights_data (print l st) = lights_data st"
  by (simp add: print_def)

lemmas light_defs = add_3_point_lighting_to_collection_def add_point_light_def lights_new_def
  set_energy_def objects_new_def update_geom_def update_obj_def objects_link_def print_def
  Let_def split_def

lemma add_lights_skip:
  "lights_exist st \<Longrightarrow>
   add_3_point_lighting_to_collection c st =
     ([], print [S ''Lights already exist in the scene. Skipping light setup.''] st)"
  by (simp add: add_3_point_lighting_to_collection_def)

lemma add_lights_fst:
  "\<not> lights_exist st \<Longrightarrow>
   fst (add_3_point_lighting_to_collection c st) = [n_objs st, n_objs st + 1, n_objs st + 2]"
  by (cases c) (simp_all add: light_defs)


lemma add_lights_collections:
  "\<not> lights_exist st \<Longrightarrow> i < length (collections st) \<Longrightarrow>
   collections (snd (add_3_point_lighting_to_collection (DataCollection i) st)) =
     (collections st)[i := (collections st ! i)
        \<lparr>cobjects := cobjects (collections st ! i) @ [n_objs st, n_objs st + 1, n_objs st + 2]\<rparr>]"
  by (simp add: light_defs)

lemma add_lights_scene_objects:
  "scene_objects (snd (add_3_point_lighting_to_collection (DataCollection i) st)) = scene_objects st"
  by (simp add: light_defs)
















section \<open>The rig is linked to the "Setup" collection only\<close>

lemma set_users_collection: "set (users_collection st obj) = {c. linked st c obj}"
proof (rule set_eqI)
  fix c
  show "c \<in> set (users_collection st obj) \<longleftrightarrow> c \<in> {c. linked st c obj}"
    by (cases c) (auto simp: users_collection_def linked_def)
qed

lemma linked_print [simp]: "linked (print l st) = linked st"
  by (auto simp: linked_def print_def fun_eq_iff split: coll_ref.splits)

lemma linked_unlink:
  "linked (objects_unlink r obj st) r' o' \<longleftrightarrow> linked st r' o' \<and> \<not> (r' = r \<and> o' = obj)"
proof (cases r)
  case SceneCollection
  then show ?thesis by (cases r') (auto simp: linked_def objects_unlink_def)
next
  case (DataCollection j)
  show ?thesis
  proof (cases r')
    case SceneCollection
    then show ?thesis using DataCollection by (simp add: linked_def objects_unlink_def)
  next
    case (DataCollection k)
    then show ?thesis using \<open>r = DataCollection j\<close>
      by (cases "k = j") (auto simp: linked_def objects_unlink_def)
  qed
qed

lemma linked_fold_unlink:
  "linked (fold (\<lambda>coll st. if coll \<noteq> c then objects_unlink coll obj st else st) cs st) r o' \<longleftrightarrow>
     linked st r o' \<and> \<not> (r \<in> set cs \<and> r \<noteq> c \<and> o' = obj)"
proof (induction cs arbitrary: st)
  case Nil
  show ?case by simp
next
  case (Cons a cs)
  show ?case by (simp add: Cons.IH linked_unlink) blast
qed

lemma linked_unlink_others:
  "linked (fold (\<lambda>coll st. if coll \<noteq> c then objects_unlink coll obj st else st)
             (users_collection st obj) st) r o' \<longleftrightarrow>
     (if o' = obj then linked st r o' \<and> r = c else linked st r o')"
  by (simp add: linked_fold_unlink set_users_collection) blast

lemma linked_ensure_unique:
  "linked (ensure_unique_in_collection c os st) r o' \<longleftrightarrow>
     (if o' \<in> set os then linked st r o' \<and> r = c else linked st r o')"
proof -
  have "linked (fold (\<lambda>obj st.
                fold (\<lambda>coll st. if coll \<noteq> c then objects_unlink coll obj st else st)
                  (users_collection st obj) st) os st) r o' \<longleftrightarrow>
     (if o' \<in> set os then linked st r o' \<and> r = c else linked st r o')"
  proof (induction os arbitrary: st)
    case Nil
    show ?case by simp
  next
    case (Cons a os)
    show ?case by (auto simp: Cons.IH linked_unlink_others)
  qed
  then show ?thesis by (simp add: ensure_unique_in_collection_def)
qed

lemma create_setup_valid:
  "create_setup_collection st = (c, st1) \<Longrightarrow>
   \<exists>i. c = DataCollection i \<and> i < length (collections st1) \<and> cname (collections st1 ! i) = ''Setup''"
proof (cases "find_collection ''Setup'' (collections st)")
  case None
  assume "create_setup_collection st = (c, st1)"
  with create_setup_new [OF None] show ?thesis by (auto simp: nth_append)
next
  case (Some i)
  assume "create_setup_collection st = (c, st1)"
  with create_setup_existing [OF Some] find_collection_Some [OF Some] show ?thesis by auto
qed

lemmas camera_defs = add_camera_to_collection_def cameras_new_def objects_new_def
  objects_link_def update_geom_def update_obj_def print_def Let_def split_def

lemma add_camera_linked:
  assumes "i < length (collections st)"
  shows "linked (snd (add_camera_to_collection (DataCollection i) st)) (DataCollection i)
           (fst (add_camera_to_collection (DataCollection i) st))"
  using assms by (simp add: camera_defs linked_def)

lemma map_update_same: "(map f xs)[i := f (xs ! i)] = map f xs"
proof (cases "i < length xs")
  case True
  then have "f (xs ! i) = map f xs ! i" by simp
  then show ?thesis by (simp only: list_update_id)
next
  case False
  then show ?thesis by (simp add: list_update_beyond)
qed

lemma add_camera_collections:
  "length (collections (snd (add_camera_to_collection c st))) = length (collections st) \<and>
   map cname (collections (snd (add_camera_to_collection c st))) = map cname (collections st)"
  by (cases c) (simp_all add: camera_defs map_update map_update_same)

lemma add_camera_fst: "fst (add_camera_to_collection c st) = n_objs st"
  by (simp add: camera_defs)

lemma add_camera_otype:
  "otype (objs (snd (add_camera_to_collection c st)) k) =
     (if k = n_objs st then ''CAMERA'' else otype (objs st k))"
  by (cases c) (simp_all add: camera_defs)

lemma add_camera_scene_objs:
  "i < length (collections st) \<Longrightarrow>
   collections (snd (add_camera_to_collection (DataCollection i) st)) =
     (collections st)[i := (collections st ! i)\<lparr>cobjects := cobjects (collections st ! i) @ [n_objs st]\<rparr>] \<and>
   scene_objects (snd (add_camera_to_collection (DataCollection i) st)) = scene_objects st \<and>
   n_objs (snd (add_camera_to_collection (DataCollection i) st)) = Suc (n_objs st)"
  by (simp add: camera_defs)

lemma add_lights_linked_mono:
  assumes "linked st r o'" and "i < length (collections st)"
  shows "linked (snd (add_3_point_lighting_to_collection (DataCollection i) st)) r o'"
proof (cases "lights_exist st")
  case True
  then show ?thesis using assms by (simp add: add_lights_skip)
next
  case False
  show ?thesis
    using assms
    by (cases r)
       (auto simp: linked_def add_lights_collections [OF False assms(2)]
          add_lights_scene_objects nth_list_update)
qed

lemma add_lights_linked:
  assumes "i < length (collections st)"
    and "l \<in> set (fst (add_3_point_lighting_to_collection (DataCollection i) st))"
  shows "linked (snd (add_3_point_lighting_to_collection (DataCollection i) st)) (DataCollection i) l"
proof (cases "lights_exist st")
  case True
  then show ?thesis using assms by (simp add: add_lights_skip)
next
  case False
  from assms(2) have "l \<in> {n_objs st, n_objs st + 1, n_objs st + 2}"
    by (simp add: add_lights_fst [OF False])
  then show ?thesis
    using assms(1) by (auto simp: linked_def add_lights_collections [OF False])
qed

lemma add_lights_names:
  assumes "i < length (collections st)"
  shows "map cname (collections (snd (add_3_point_lighting_to_collection (DataCollection i) st))) =
         map cname (collections st)"
proof (cases "lights_exist st")
  case True
  then show ?thesis by (simp add: add_lights_skip)
next
  case False
  show ?thesis
    by (simp add: add_lights_collections [OF False assms] map_update map_update_same)
qed

lemma unlink_names:
  "map cname (collections (objects_unlink r obj st)) = map cname (collections st)"
  by (cases r) (simp_all add: objects_unlink_def map_update map_update_same)

lemma fold_unlink_names:
  "map cname (collections
     (fold (\<lambda>coll st. if coll \<noteq> c then objects_unlink coll obj st else st) cs st)) =
   map cname (collections st)"
  by (induction cs arbitrary: st) (simp_all add: unlink_names)

lemma ensure_unique_names:
  "map cname (collections (ensure_unique_in_collection c os st)) = map cname (collections st)"
proof -
  have "map cname (collections (fold (\<lambda>obj st.
                fold (\<lambda>coll st. if coll \<noteq> c then objects_unlink coll obj st else st)
                  (users_collection st obj) st) os st)) = map cname (collections st)"
    by (induction os arbitrary: st) (simp_all add: fold_unlink_names)
  then show ?thesis by (simp add: ensure_unique_in_collection_def)
qed

lemma main_setup_unfold:
  assumes "create_setup_collection st = (c, st1)"
    and "add_camera_to_collection c st1 = (cam, st2)"
    and "add_3_point_lighting_to_collection c st2 = (lights, st3)"
  shows "main_setup st =
    ((c, cam, lights),
     print [S ''Setup complete! Camera and 3-point lighting added to the 'Setup' collection.'']
       (ensure_unique_in_collection c (cam # lights) (st3\<lparr>scene_camera := Some cam\<rparr>)))"
  using assms by (simp add: main_setup_def view_layer_update_def)

lemma linked_scene_camera [simp]: "linked (st\<lparr>scene_camera := x\<rparr>) = linked st"
  by (auto simp: linked_def fun_eq_iff split: coll_ref.splits)

lemma main_setup_isolates:
  "(\<exists>i. fst (fst (main_setup st)) = DataCollection i \<and>
        i < length (collections (snd (main_setup st))) \<and>
        cname (collections (snd (main_setup st)) ! i) = ''Setup'') \<and>
   (\<forall>obj \<in> set (fst (snd (fst (main_setup st))) # snd (snd (fst (main_setup st)))).
      set (users_collection (snd (main_setup st)) obj) = {fst (fst (main_setup st))})"
proof -
  obtain c st1 where a1: "create_setup_collection st = (c, st1)"
    by (cases "create_setup_collection st")
  obtain cam st2 where a2: "add_camera_to_collection c st1 = (cam, st2)"
    by (cases "add_camera_to_collection c st1")
  obtain lights st3 where a3: "add_3_point_lighting_to_collection c st2 = (lights, st3)"
    by (cases "add_3_point_lighting_to_collection c st2")
  let ?st5 = "st3\<lparr>scene_camera := Some cam\<rparr>"
  let ?st' = "snd (main_setup st)"
  note ms = main_setup_unfold [OF a1 a2 a3]
  from create_setup_valid [OF a1] obtain i where
    c: "c = DataCollection i" and i1: "i < length (collections st1)"
    and n1: "cname (collections st1 ! i) = ''Setup''" by blast
  have names2: "map cname (collections st2) = map cname (collections st1)"
    using add_camera_collections [of c st1] a2 by simp
  then have "length (map cname (collections st2)) = length (map cname (collections st1))"
    by simp
  then have i2: "i < length (collections st2)" using i1 by simp
  have names3: "map cname (collections st3) = map cname (collections st2)"
    using add_lights_names [OF i2] a3 c by simp
  have cam2: "linked st2 c cam"
    using add_camera_linked [OF i1] a2 c by simp
  have cam3: "linked st3 c cam"
    using add_lights_linked_mono [OF cam2 [unfolded c] i2] a3 c by simp
  have l3: "linked st3 c l" if "l \<in> set lights" for l
    using add_lights_linked [OF i2, of l] that a3 c by simp
  have all5: "linked ?st5 c obj" if "obj \<in> set (cam # lights)" for obj
    using that cam3 l3 by auto
  have users: "set (users_collection ?st' obj) = {c}" if "obj \<in> set (cam # lights)" for obj
  proof -
    have "linked ?st' r obj \<longleftrightarrow> r = c" for r
      using that all5 [OF that] by (auto simp: ms linked_ensure_unique)
    then show ?thesis by (auto simp: set_users_collection)
  qed
  have names: "map cname (collections ?st') = map cname (collections st1)"
    using names2 names3 by (simp add: ms ensure_unique_names)
  then have "length (map cname (collections ?st')) = length (map cname (collections st1))"
    by simp
  then have i': "i < length (collections ?st')" using i1 by simp
  have "map cname (collections ?st') ! i = map cname (collections st1) ! i"
    using names by simp
  then have "cname (collections ?st' ! i) = ''Setup''" using i1 i' n1 by simp
  then show ?thesis using users c i' by (simp add: ms)
qed

text \<open>
  C8. After the setup phase of \<open>main\<close>, the camera and every light that the setup has
  made are linked to the "Setup" collection and to no other collection.
\<close>

theorem rig_isolated:
  assumes "main_setup st = ((setup, cam, lights), st')"
  shows "(\<exists>i. setup = DataCollection i \<and> i < length (collections st') \<and>
              cname (collections st' ! i) = ''Setup'') \<and>
         (\<forall>obj \<in> set (cam # lights). set (users_collection st' obj) = {setup})"
  using main_setup_isolates [of st] assms by simp

lemma demo_setup_fst:
  "fst (main_setup demo_scene) = (DataCollection 1, 2, [3, 4, 5])"
proof -
  define s1 where "s1 = print [S ''Created 'Setup' collection.'']
        (demo_scene\<lparr>collections := collections demo_scene @
              [\<lparr>cname = ''Setup'', cobjects = [], in_scene = True\<rparr>]\<rparr>)"
  define s2 where "s2 = snd (add_camera_to_collection (DataCollection 1) s1)"
  define s3 where "s3 = snd (add_3_point_lighting_to_collection (DataCollection 1) s2)"
  have f: "find_collection ''Setup'' (collections demo_scene) = None"
    by (simp add: demo_scene_def blank_def)
  have a1: "create_setup_collection demo_scene = (DataCollection 1, s1)"
    using create_setup_new [OF f] by (simp add: s1_def demo_scene_def blank_def)
  have n1: "n_objs s1 = 2" by (simp add: s1_def demo_scene_def blank_def)
  have a2: "add_camera_to_collection (DataCollection 1) s1 = (2, s2)"
    unfolding s2_def using add_camera_fst [of "DataCollection 1" s1] n1
    by (metis prod.collapse)
  have len: "1 < length (collections s1)" by (simp add: s1_def demo_scene_def blank_def)
  note c2 = add_camera_scene_objs [OF len, folded s2_def]
  have cs2: "collections s2 = [\<lparr>cname = ''Target'', cobjects = [0, 1], in_scene = True\<rparr>,
                                \<lparr>cname = ''Setup'', cobjects = [2], in_scene = True\<rparr>]"
    and sc2: "scene_objects s2 = []"
    using c2 by (simp_all add: s1_def demo_scene_def blank_def print_def)
  have so: "scene_objs s2 = [0, 1, 2]"
    unfolding scene_objs_def cs2 sc2 by simp
  have ot: "otype (objs s2 k) = (if k = 2 then ''CAMERA'' else otype (objs demo_scene k))" for k
    unfolding s2_def add_camera_otype n1 by (simp add: s1_def)
  have ne: "\<not> lights_exist s2"
    unfolding lights_exist_def view_layer_objects_def so
    by (simp add: ot) (simp add: demo_scene_def blank_def cube_def axis_def)
  have n2: "n_objs s2 = 3" using c2 n1 by simp
  have "fst (add_3_point_lighting_to_collection (DataCollection 1) s2) = [3, 4, 5]"
    using add_lights_fst [OF ne, of "DataCollection 1"] by (simp add: n2)
  then have a3: "add_3_point_lighting_to_collection (DataCollection 1) s2 = ([3, 4, 5], s3)"
    unfolding s3_def by (metis prod.collapse)
  show ?thesis
    by (simp add: main_setup_unfold [OF a1 a2 a3])
qed

theorem rig_isolated_witness:
  "fst (main_setup demo_scene) = (DataCollection 1, 2, [3, 4, 5]) \<and>
   set (users_collection (snd (main_setup demo_scene)) 2) = {DataCollection 1} \<and>
   set (users_collection (snd (main_setup demo_scene)) 3) = {DataCollection 1} \<and>
   set (users_collection (snd (main_setup demo_scene)) 4) = {DataCollection 1} \<and>
   set (users_collection (snd (main_setup demo_scene)) 5) = {DataCollection 1}"
proof -
  have "main_setup demo_scene = ((DataCollection 1, 2, [3, 4, 5]), snd (main_setup demo_scene))"
    using demo_setup_fst by (metis prod.collapse)
  from rig_isolated [OF this] demo_setup_fst show ?thesis by simp
qed

section \<open>What the setup phase keeps\<close>











section \<open>The history of standardizing and rendering\<close>




lemma static_filepath: "static a = static b \<Longrightarrow> filepath a = filepath b"
  by (simp add: static_def)

lemma static_print [simp]: "static (print l st) = static st"
  by (simp add: static_def print_def)

lemma trace_print [simp]: "trace (print l st) = trace st"
  by (simp add: print_def)

lemma static_mode_set [simp]: "static (mode_set m st) = static st"
  by (simp add: static_def mode_set_def)

lemma trace_mode_set [simp]: "trace (mode_set m st) = trace st"
  by (simp add: mode_set_def)

lemma static_update_geom [simp]: "static (update_geom i f st) = static st"
  by (simp add: static_def update_geom_def update_obj_def fun_eq_iff)

lemma trace_update_geom [simp]: "trace (update_geom i f st) = trace st"
  by (simp add: update_geom_def update_obj_def)

lemma static_select_set [simp]: "static (select_set i b st) = static st"
  by (simp add: static_def select_set_def update_obj_def fun_eq_iff)

lemma trace_select_set [simp]: "trace (select_set i b st) = trace st"
  by (simp add: select_set_def update_obj_def)

lemma static_apply_to_selected [simp]: "static (apply_to_selected f st) = static st"
  by (simp add: static_def apply_to_selected_def fun_eq_iff)

lemma trace_apply_to_selected [simp]: "trace (apply_to_selected f st) = trace st"
  by (simp add: apply_to_selected_def)




lemma static_updates [simp]:
  "static (st\<lparr>trace := tr\<rparr>) = static st"
  "static (st\<lparr>active := ac\<rparr>) = static st"
  "static (st\<lparr>render_filepath := p\<rparr>) = static st"
  "static (st\<lparr>fs := files\<rparr>) = static st"
  by (simp_all add: static_def)




lemma static_hide_step [simp]: "static (hide_step obj x st) = static st"
  by (simp add: static_def hide_step_def update_obj_def fun_eq_iff)

lemma trace_hide_step [simp]: "trace (hide_step obj x st) = trace st"
  by (simp add: hide_step_def update_obj_def)

lemma fold_hide_static [simp]:
  "static (fold (hide_step obj) xs st) = static st"
  by (induction xs arbitrary: st) simp_all

lemma fold_hide_trace [simp]:
  "trace (fold (hide_step obj) xs st) = trace st"
  by (induction xs arbitrary: st) simp_all


lemma setup_render_settings_static [simp]:
  "static (setup_render_settings r st) = static st"
  "trace (setup_render_settings r st) = trace st"
  by (simp_all add: setup_render_settings_def static_def print_def)









section \<open>Runs that return\<close>

lemma corners_print [simp]: "world_corners (objs (print l st) o') = world_corners (objs st o')"
  by (simp add: print_def)

lemma corners_select_set [simp]:
  "world_corners (objs (select_set i b st) o') = world_corners (objs st o')"
  by (simp add: select_set_def update_obj_def world_corners_def)

lemma corners_apply_demo [simp]:
  "world_corners (objs (apply_to_selected (\<lambda>g. g) st) o') = world_corners (objs st o')"
  by (simp add: apply_to_selected_def world_corners_def)

lemma corners_mode_set [simp]:
  "world_corners (objs (mode_set m st) o') = world_corners (objs st o')"
  by (simp add: mode_set_def)

lemma corners_scale [simp]:
  "world_corners (objs (update_geom i (\<lambda>g. g\<lparr>scale := s\<rparr>) st) o') = world_corners (objs st o')"
  by (simp add: update_geom_def update_obj_def world_corners_def)







section \<open>Paths\<close>






section \<open>The run of \<open>main\<close> on the "Target" collection\<close>

















end
